theory Spec2Isabelle
  imports Main
begin

section \<open>Shared values\<close>

text \<open>
  \<^verbatim>\<open>export type ContainerState = "starting" | "running" | "unhealthy" | "stopped"
     | "failed" | "unknown"\<close> (common/container.ts, lines 12-18).
\<close>

datatype ContainerState = Starting | Running | Unhealthy | Stopped | Failed | Unknown

text \<open>
  JavaScript exceptions as values. \<open>Error\<close> carries the message of a
  \<^verbatim>\<open>throw new Error(...)\<close>; \<open>TypeError\<close> and \<open>ReferenceError\<close> are the
  ones the engine raises itself.
\<close>

datatype error = Error string | TypeError string | ReferenceError string

text \<open>\<^verbatim>\<open>ContainerStartupOptions\<close>: every field is optional.\<close>

record ContainerStartupOptions =
  env :: "(string \<times> string) list option"
  entrypoint :: "string list option"
  enableInternet :: "bool option"

section \<open>The supervisor: class CommonContainer (common/container.ts)\<close>

text \<open>
  The durable object's state. \<open>stored_state\<close> is the storage key \<^verbatim>\<open>"state"\<close>
  (\<open>None\<close>: no record), \<open>stored_alarm\<close> the storage alarm (\<open>None\<close>: what
  \<^verbatim>\<open>getAlarm()\<close> returns as \<^verbatim>\<open>null\<close>). A monitor promise is named by a
  number: the runtime's \<^verbatim>\<open>container.monitor()\<close> hands out a new one per call, and
  \<open>monitors_made\<close> counts the calls. \<open>monitor\<close> is the field \<^verbatim>\<open>this.monitor\<close>;
  \<open>attached\<close> lists, in order, the promises that \<^verbatim>\<open>handleMonitorPromise\<close> has
  chained its handlers to; \<open>settled\<close> lists the promises that have resolved.
  \<open>launched\<close> lists the \<^verbatim>\<open>container.start(opts)\<close> calls.
\<close>

record Supervisor =
  stored_state :: "ContainerState option"
  stored_alarm :: "nat option"
  monitor :: "nat option"
  attached :: "nat list"
  settled :: "nat list"
  monitors_made :: nat
  launched :: "ContainerStartupOptions list"

text \<open>
  The overridable hooks \<^verbatim>\<open>preStateChange\<close> and \<^verbatim>\<open>postStateChange\<close>. A hook
  returns \<open>None\<close> when it returns normally and \<open>Some e\<close> when it throws. The old
  state a hook receives is read straight from storage, so it is \<^verbatim>\<open>undefined\<close>
  (\<open>None\<close>) when there is no record.
\<close>

record hooks =
  preStateChange :: "ContainerState option \<Rightarrow> ContainerState \<Rightarrow> error option"
  postStateChange :: "ContainerState option \<Rightarrow> ContainerState \<Rightarrow> error option"

definition default_hooks :: hooks where
  "default_hooks = \<lparr>preStateChange = (\<lambda>current newState. None),
                    postStateChange = (\<lambda>old current. None)\<rparr>"

text \<open>\<^verbatim>\<open>state()\<close>, lines 65-68: \<^verbatim>\<open>(await this.ctx.storage.get("state")) ?? "unknown"\<close>.\<close>

definition state :: "Supervisor \<Rightarrow> ContainerState" where
  "state s = (case stored_state s of None \<Rightarrow> Unknown | Some st \<Rightarrow> st)"

text \<open>
  \<^verbatim>\<open>setState\<close>, lines 90-97. An operation returns the error it threw, if any, and
  the state the object is left in: a throwing \<^verbatim>\<open>preStateChange\<close> skips the
  \<^verbatim>\<open>put\<close>, a throwing \<^verbatim>\<open>postStateChange\<close> comes after it.
\<close>

definition setState :: "hooks \<Rightarrow> ContainerState \<Rightarrow> Supervisor \<Rightarrow> error option \<times> Supervisor" where
  "setState h st s =
     (let oldState = stored_state s in
      case preStateChange h oldState st of
        Some e \<Rightarrow> (Some e, s)
      | None \<Rightarrow> (postStateChange h oldState st, s\<lparr>stored_state := Some st\<rparr>))"

text \<open>
  \<^verbatim>\<open>stateTx\<close>, lines 70-75, runs its callback inside the runtime's
  \<^verbatim>\<open>ctx.blockConcurrencyWhile\<close>. When the callback of \<^verbatim>\<open>blockConcurrencyWhile\<close>
  throws, the runtime resets the object: the event that was running ends there, so
  nothing written after the call runs (no \<^verbatim>\<open>catch\<close>, no \<^verbatim>\<open>finally\<close>), and
  the instance is discarded with its fields and the handlers it had chained; storage is
  kept. So \<open>stateTx\<close> returning \<open>Some e\<close> means: the callback threw \<open>e\<close> and the object
  was reset.
\<close>

definition reset_object :: "Supervisor \<Rightarrow> Supervisor" where
  "reset_object s = s\<lparr>monitor := None, attached := []\<rparr>"

definition stateTx ::
  "(ContainerState \<Rightarrow> Supervisor \<Rightarrow> error option \<times> Supervisor) \<Rightarrow> Supervisor \<Rightarrow> error option \<times> Supervisor" where
  "stateTx cb s =
     (case cb (state s) s of
        (None, s') \<Rightarrow> (None, s')
      | (Some e, s') \<Rightarrow> (Some e, reset_object s'))"

text \<open>
  \<^verbatim>\<open>setAlarm(value)\<close>, lines 99-105: the alarm is set only when \<^verbatim>\<open>getAlarm()\<close>
  is \<^verbatim>\<open>null\<close>.
\<close>

definition setAlarm :: "nat \<Rightarrow> Supervisor \<Rightarrow> Supervisor" where
  "setAlarm v s = (case stored_alarm s of None \<Rightarrow> s\<lparr>stored_alarm := Some v\<rparr> | Some t \<Rightarrow> s)"

subsection \<open>The probe cycle: alarm(), lines 107-161\<close>

text \<open>
  One call of the optional \<^verbatim>\<open>healthCheck\<close>: it resolves to a string or to a
  \<^verbatim>\<open>Response\<close> (given by its status), or it rejects. The property
  \<^verbatim>\<open>(this as any).healthCheck\<close> is \<open>None\<close> when the class defines none.
\<close>

datatype hc_value = Str string | Resp nat

datatype hc_outcome = Resolves hc_value | Rejects error

text \<open>
  Line 111 binds \<^verbatim>\<open>maybeHealthCheck\<close>; line 113 tests
  \<^verbatim>\<open>typeof maybeHealthcheck === "function"\<close>, an identifier spelt with a small
  \<^verbatim>\<open>c\<close> that nothing declares. \<^verbatim>\<open>typeof\<close> of an undeclared identifier does
  not throw: it is \<^verbatim>\<open>"undefined"\<close>. \<open>alarm_scope\<close> is the callback's scope,
  each bound identifier with the \<^verbatim>\<open>typeof\<close> of its value.
\<close>

definition alarm_scope :: "hc_outcome option \<Rightarrow> (string \<times> string) list" where
  "alarm_scope maybeHealthCheck =
     [(''state'', ''string''),
      (''maybeHealthCheck'', (case maybeHealthCheck of None \<Rightarrow> ''undefined'' | Some f \<Rightarrow> ''function''))]"

definition typeof :: "(string \<times> string) list \<Rightarrow> string \<Rightarrow> string" where
  "typeof scope ident = (case map_of scope ident of None \<Rightarrow> ''undefined'' | Some t \<Rightarrow> t)"

text \<open>The callback given to \<^verbatim>\<open>stateTx\<close>, lines 109-155, branch by branch.\<close>

definition alarm_cb :: "hooks \<Rightarrow> hc_outcome option \<Rightarrow> ContainerState \<Rightarrow> Supervisor \<Rightarrow> error option \<times> Supervisor" where
  "alarm_cb h maybeHealthCheck st s =
     (if typeof (alarm_scope maybeHealthCheck) ''maybeHealthcheck'' = ''function'' then
        (case maybeHealthCheck of
           None \<Rightarrow> (Some (TypeError ''maybeHealthCheck is not a function''), s)
         | Some (Rejects err) \<Rightarrow> (if st \<noteq> Starting then setState h Failed s else (None, s))
         | Some (Resolves (Resp status)) \<Rightarrow> setState h Unhealthy s
         | Some (Resolves (Str result)) \<Rightarrow>
             (if result = ''ok'' then setState h Running s
              else if result = ''not_listening'' \<or> result = ''no_container_yet''
                then setState h Starting s
              else (None, s)))
      else setState h st s)"

text \<open>
  \<^verbatim>\<open>alarm()\<close> is called by the runtime when the stored alarm is due; \<open>s\<close> is the
  object at that moment and \<open>now\<close> the clock when the \<^verbatim>\<open>finally\<close> is reached.
  While the handler runs, \<^verbatim>\<open>getAlarm()\<close> answers \<^verbatim>\<open>null\<close>: the alarm that fired
  counts as gone unless the handler sets a new one. The body of the \<^verbatim>\<open>try\<close> is the
  one call of \<^verbatim>\<open>stateTx\<close>. When it returns, the \<^verbatim>\<open>finally\<close> calls
  \<^verbatim>\<open>setAlarm()\<close> with its default \<^verbatim>\<open>Date.now() + 500\<close>. When the callback
  throws, the object is reset and the run of \<^verbatim>\<open>alarm()\<close> ends inside the call:
  neither the \<^verbatim>\<open>catch\<close> nor the \<^verbatim>\<open>finally\<close> runs, and the runtime keeps the
  alarm that fired as it was, to call the handler again.
\<close>

definition alarm :: "hooks \<Rightarrow> hc_outcome option \<Rightarrow> nat \<Rightarrow> Supervisor \<Rightarrow> Supervisor" where
  "alarm h maybeHealthCheck now s =
     (case stateTx (alarm_cb h maybeHealthCheck) (s\<lparr>stored_alarm := None\<rparr>) of
        (None, s') \<Rightarrow> setAlarm (now + 500) s'
      | (Some e, s') \<Rightarrow> s'\<lparr>stored_alarm := stored_alarm s\<rparr>)"

subsection \<open>The completion monitor: handleMonitorPromise, lines 163-192\<close>

text \<open>\<^verbatim>\<open>this.container.monitor()\<close>: a promise no earlier call returned.\<close>

definition container_monitor :: "Supervisor \<Rightarrow> nat \<times> Supervisor" where
  "container_monitor s = (monitors_made s, s\<lparr>monitors_made := Suc (monitors_made s)\<rparr>)"

text \<open>
  \<^verbatim>\<open>handleMonitorPromise(monitor)\<close> chains \<^verbatim>\<open>.then(...).catch(...)\<close> to the
  promise it is given; on \<^verbatim>\<open>undefined\<close> the property access throws. The call
  itself only chains. Handlers chained to a promise that has already resolved run as
  soon as the running code returns: see \<open>monitor_resolved\<close> below.
\<close>

definition handleMonitorPromise :: "nat option \<Rightarrow> Supervisor \<Rightarrow> error option \<times> Supervisor" where
  "handleMonitorPromise m s =
     (case m of
        None \<Rightarrow> (Some (TypeError ''Cannot read properties of undefined''), s)
      | Some p \<Rightarrow> (None, s\<lparr>attached := attached s @ [p]\<rparr>))"

text \<open>The callback of the \<^verbatim>\<open>.then\<close>, lines 166-186.\<close>

definition monitor_resolved_cb :: "hooks \<Rightarrow> ContainerState \<Rightarrow> Supervisor \<Rightarrow> error option \<times> Supervisor" where
  "monitor_resolved_cb h st s =
     (if st = Running \<or> st = Unhealthy then setState h Stopped s
      else if st = Starting then handleMonitorPromise (monitor s) s
      else (None, s))"

text \<open>The handler of the \<^verbatim>\<open>.catch\<close>, lines 188-191.\<close>

definition monitor_catch :: "hooks \<Rightarrow> Supervisor \<Rightarrow> error option \<times> Supervisor" where
  "monitor_catch h s = setState h Failed s"

text \<open>
  One run of the \<^verbatim>\<open>.then\<close> handler, lines 165-187: the callback inside
  \<^verbatim>\<open>stateTx\<close>. When the callback throws the object is reset, so the \<^verbatim>\<open>.catch\<close>
  chained after it does not run.
\<close>

definition monitor_then :: "hooks \<Rightarrow> Supervisor \<Rightarrow> error option \<times> Supervisor" where
  "monitor_then h s = stateTx (monitor_resolved_cb h) s"



text \<open>The monitor promise rejects: only the \<^verbatim>\<open>.catch\<close> runs.\<close>

definition monitor_rejected :: "hooks \<Rightarrow> Supervisor \<Rightarrow> error option \<times> Supervisor" where
  "monitor_rejected h s = monitor_catch h s"

subsection \<open>start and destroy, lines 195-220\<close>

text \<open>
  \<open>is_running\<close> is \<^verbatim>\<open>this.container.running\<close> as the runtime reports it when
  \<^verbatim>\<open>start\<close> is called.
\<close>

definition attach_new_monitor :: "Supervisor \<Rightarrow> error option \<times> Supervisor" where
  "attach_new_monitor s =
     (case container_monitor s of
        (p, s1) \<Rightarrow> (let s2 = s1\<lparr>monitor := Some p\<rparr> in handleMonitorPromise (monitor s2) s2))"

definition start :: "hooks \<Rightarrow> bool \<Rightarrow> ContainerStartupOptions \<Rightarrow> Supervisor \<Rightarrow> error option \<times> Supervisor" where
  "start h is_running containerStart s =
     (if is_running then
        (if monitor s = None then attach_new_monitor s else (None, s))
      else
        (let s1 = s\<lparr>launched := launched s @ [containerStart]\<rparr> in
         case setState h Running s1 of
           (Some e, s2) \<Rightarrow> (Some e, s2)
         | (None, s2) \<Rightarrow> attach_new_monitor s2))"

text \<open>
  \<^verbatim>\<open>destroy()\<close>: \<^verbatim>\<open>deleteAll\<close>, \<^verbatim>\<open>deleteAlarm\<close>, then \<^verbatim>\<open>ctx.abort()\<close> in the
  \<^verbatim>\<open>finally\<close>, which always throws.
\<close>

definition destroy :: "Supervisor \<Rightarrow> error option \<times> Supervisor" where
  "destroy s = (Some (Error ''aborted''), s\<lparr>stored_state := None, stored_alarm := None\<rparr>)"

text \<open>
  The operations of a supervisor, as one step function: a probe cycle, one run of the
  \<^verbatim>\<open>.then\<close> handler of the monitor, one run of its \<^verbatim>\<open>.catch\<close> handler,
  \<^verbatim>\<open>start\<close> and \<^verbatim>\<open>destroy\<close>.
\<close>

datatype op =
    OpAlarm "hc_outcome option" nat
  | OpMonitorThen
  | OpMonitorRejected
  | OpStart bool ContainerStartupOptions
  | OpDestroy

definition step :: "hooks \<Rightarrow> op \<Rightarrow> Supervisor \<Rightarrow> Supervisor" where
  "step h operation s =
     (case operation of
        OpAlarm hc now \<Rightarrow> alarm h hc now s
      | OpMonitorThen \<Rightarrow> snd (monitor_then h s)
      | OpMonitorRejected \<Rightarrow> snd (monitor_rejected h s)
      | OpStart is_running opts \<Rightarrow> snd (start h is_running opts s)
      | OpDestroy \<Rightarrow> snd (destroy s))"

definition is_probe :: "op \<Rightarrow> bool" where
  "is_probe operation = (case operation of OpAlarm hc now \<Rightarrow> True | _ \<Rightarrow> False)"

section \<open>The registry: class CommonContainerManager (common/manager.ts)\<close>

text \<open>
  \<^verbatim>\<open>ContainerInfo\<close>, lines 4-9. The field \<^verbatim>\<open>state\<close> is named \<open>lastState\<close>
  here, \<open>state\<close> being the supervisor's method above.
\<close>

record ContainerInfo =
  startupOpts :: ContainerStartupOptions
  name :: string
  lastState :: ContainerState
  bindingName :: string

text \<open>
  A stub addresses one supervisor: the namespace it was obtained from and the name given
  to \<^verbatim>\<open>idFromName\<close>. The calls the registry makes on stubs are kept as values:
  \<^verbatim>\<open>start(opts)\<close>, \<^verbatim>\<open>destroy()\<close> and \<^verbatim>\<open>fetch(request)\<close>, a request being
  given by its URL.
\<close>

type_synonym 'ns stub = "'ns \<times> string"

datatype 'ns rpc =
    RpcStart "'ns stub" ContainerStartupOptions
  | RpcDestroy "'ns stub"
  | RpcFetch "'ns stub" string

text \<open>
  The durable object's state. \<open>bindings\<close> is the \<^verbatim>\<open>ContainerBindingMap\<close> given to
  the constructor, as the list of its own properties in key order; \<open>containers\<close> is the
  storage key \<^verbatim>\<open>"containers"\<close> (\<open>None\<close>: no record); \<open>mgr_alarm\<close> is the storage
  alarm; \<open>writes\<close> lists every value that was \<^verbatim>\<open>put\<close> under \<^verbatim>\<open>"containers"\<close>, in
  order; \<open>outbox\<close> lists the calls made on stubs.
\<close>

record 'ns Manager =
  bindings :: "(string \<times> 'ns) list"
  containers :: "ContainerInfo list option"
  mgr_alarm :: "nat option"
  writes :: "ContainerInfo list list"
  outbox :: "'ns rpc list"

text \<open>
  The binding map is a plain object (the object literal of src/index.ts, lines 75-79),
  so reading \<^verbatim>\<open>this.bindings[name]\<close> finds the map's own property of that name
  and, failing that, what the object inherits from \<^verbatim>\<open>Object.prototype\<close>. These are
  the names the language defines there; each holds a function, \<^verbatim>\<open>__proto__\<close> the
  prototype object itself, so each value is truthy and none is a namespace.
\<close>

definition object_prototype_names :: "string list" where
  "object_prototype_names =
     [''constructor'', ''__defineGetter__'', ''__defineSetter__'', ''hasOwnProperty'',
      ''__lookupGetter__'', ''__lookupSetter__'', ''isPrototypeOf'', ''propertyIsEnumerable'',
      ''toString'', ''valueOf'', ''__proto__'', ''toLocaleString'']"

text \<open>What a read of the map gives: a configured namespace, or an inherited value.\<close>

datatype 'ns binding = Pool 'ns | Inherited string

definition get_property :: "(string \<times> 'ns) list \<Rightarrow> string \<Rightarrow> 'ns binding option" where
  "get_property bs nm =
     (case map_of bs nm of
        Some b \<Rightarrow> Some (Pool b)
      | None \<Rightarrow> (if nm \<in> set object_prototype_names then Some (Inherited nm) else None))"

text \<open>
  \<^verbatim>\<open>getBinding(name)\<close>, lines 26-45. With one key, \<^verbatim>\<open>this.bindings[keys[0]]\<close> is
  that key's own value. \<^verbatim>\<open>!binding\<close> holds exactly when the read gives
  \<^verbatim>\<open>undefined\<close>.
\<close>

definition getBinding :: "(string \<times> 'ns) list \<Rightarrow> string \<Rightarrow> error + 'ns binding" where
  "getBinding bs nm =
     (if nm = [] then
        (case bs of
           [] \<Rightarrow> Inl (Error ''No container binding provided'')
         | [(k, b)] \<Rightarrow> Inr (Pool b)
         | _ \<Rightarrow> Inl (Error ''Multiple container bindings present: you must specify a name.''))
      else
        (case get_property bs nm of
           None \<Rightarrow> Inl (Error (''No container binding found for name: '' @ [CHR 0x27] @ nm @ [CHR 0x27]))
         | Some binding \<Rightarrow> Inr binding))"

text \<open>
  \<^verbatim>\<open>getContainerBinding(bindingName, name)\<close>, lines 47-54. An inherited value has
  no \<^verbatim>\<open>idFromName\<close>, so the call of line 52 throws.
\<close>

definition getContainerBinding :: "(string \<times> 'ns) list \<Rightarrow> string \<Rightarrow> string \<Rightarrow> error + 'ns stub" where
  "getContainerBinding bs bn nm =
     (case getBinding bs bn of
        Inl e \<Rightarrow> Inl e
      | Inr (Pool b) \<Rightarrow> Inr (b, nm)
      | Inr (Inherited v) \<Rightarrow> Inl (TypeError ''binding.idFromName is not a function''))"

text \<open>
  The primitives that reach the comparisons of lines 93 and 111: a string, or
  \<^verbatim>\<open>undefined\<close>. The array holds \<^verbatim>\<open>ContainerInfo\<close> objects, and an object is
  never \<^verbatim>\<open>===\<close> (nor SameValueZero-equal, which \<^verbatim>\<open>includes\<close> uses) to a
  primitive, whatever its fields hold.
\<close>

datatype prim = PString string | PUndefined

definition strict_equals :: "ContainerInfo \<Rightarrow> prim \<Rightarrow> bool" where
  "strict_equals d p = False"

definition array_includes :: "ContainerInfo list \<Rightarrow> prim \<Rightarrow> bool" where
  "array_includes cs p = list_ex (\<lambda>d. strict_equals d p) cs"

definition put_containers :: "ContainerInfo list \<Rightarrow> 'ns Manager \<Rightarrow> 'ns Manager" where
  "put_containers cs m = m\<lparr>containers := Some cs, writes := writes m @ [cs]\<rparr>"

text \<open>\<^verbatim>\<open>addContainer(name, opts, bindingName)\<close>, lines 84-103.\<close>

definition addContainer :: "string \<Rightarrow> ContainerStartupOptions \<Rightarrow> string \<Rightarrow> 'ns Manager \<Rightarrow> 'ns Manager" where
  "addContainer nm opts bn m =
     (let cs = (case containers m of None \<Rightarrow> [] | Some l \<Rightarrow> l) in
      if \<not> array_includes cs (PString nm) then
        put_containers
          (cs @ [\<lparr>startupOpts = opts, name = nm, lastState = Starting, bindingName = bn\<rparr>]) m
      else m)"

text \<open>
  \<^verbatim>\<open>newContainer(opts, name, bindingName)\<close>, lines 56-65: \<^verbatim>\<open>container.start(opts)\<close>
  is called and not awaited.
\<close>

definition newContainer ::
  "ContainerStartupOptions \<Rightarrow> string \<Rightarrow> string \<Rightarrow> 'ns Manager \<Rightarrow> error option \<times> 'ns Manager" where
  "newContainer opts nm bn m =
     (case getContainerBinding (bindings m) bn nm of
        Inl e \<Rightarrow> (Some e, m)
      | Inr container \<Rightarrow>
          (None, addContainer nm opts bn (m\<lparr>outbox := outbox m @ [RpcStart container opts]\<rparr>)))"

text \<open>
  \<^verbatim>\<open>requestContainer(name, request)\<close>, lines 68-81. With no record in storage
  \<^verbatim>\<open>containers.filter\<close> throws. The result is the call made on the stub, whose
  response is returned as it is.
\<close>

definition requestContainer :: "string \<Rightarrow> string \<Rightarrow> 'ns Manager \<Rightarrow> error + 'ns rpc" where
  "requestContainer nm request m =
     (case containers m of
        None \<Rightarrow> Inl (TypeError ''Cannot read properties of undefined'')
      | Some cs \<Rightarrow>
          (let info = filter (\<lambda>c. name c = nm) cs in
           if length info \<noteq> 1 then Inl (Error (''No record found for container: '' @ nm))
           else
             (case getContainerBinding (bindings m) (bindingName (hd info)) nm of
                Inl e \<Rightarrow> Inl e
              | Inr container \<Rightarrow> Inr (RpcFetch container request))))"

text \<open>\<^verbatim>\<open>rmContainer(name)\<close>, lines 105-117.\<close>

definition rmContainer :: "prim \<Rightarrow> 'ns Manager \<Rightarrow> bool \<times> 'ns Manager" where
  "rmContainer p m =
     (case containers m of
        None \<Rightarrow> (False, m)
      | Some cs \<Rightarrow>
          (if length cs = 0 then (False, m)
           else
             (let beforeLength = length cs;
                  cs' = filter (\<lambda>d. \<not> strict_equals d p) cs
              in if length cs' \<noteq> beforeLength then (True, put_containers cs' m)
                 else (False, m))))"

text \<open>\<^verbatim>\<open>listContainers()\<close>, lines 120-126.\<close>

definition listContainers :: "'ns Manager \<Rightarrow> ContainerInfo list" where
  "listContainers m = (case containers m of None \<Rightarrow> [] | Some l \<Rightarrow> l)"

subsection \<open>Reconciliation: updateContainerStates, lines 128-158\<close>

text \<open>\<^verbatim>\<open>isTerminalState\<close>, lines 176-178.\<close>

definition isTerminalState :: "ContainerState \<Rightarrow> bool" where
  "isTerminalState st = (st = Stopped \<or> st = Failed)"

text \<open>
  \<^verbatim>\<open>handleTerminalState\<close> is an \<^verbatim>\<open>async\<close> method: a call returns a promise at
  once, whatever the body does. A policy is given by what its body does on a stub: the
  value it resolves to (or the error it rejects with) and the calls it makes. Line 143
  does not await the call, so \<^verbatim>\<open>remove\<close> is the promise itself, and line 144
  tests an object, which is truthy.
\<close>

type_synonym 'ns policy = "'ns stub \<Rightarrow> (error + bool) \<times> 'ns rpc list"

datatype 'a promise = Promise 'a

definition to_boolean :: "'a promise \<Rightarrow> bool" where
  "to_boolean p = True"

text \<open>The default policy, lines 181-184: \<^verbatim>\<open>container.destroy(); return true\<close>.\<close>

definition handleTerminalState :: "'ns policy" where
  "handleTerminalState container = (Inr True, [RpcDestroy container])"

text \<open>
  The override of \<^verbatim>\<open>MyContainerManager\<close> (src/index.ts, lines 85-94) tests
  \<^verbatim>\<open>c instanceof MyContainer\<close>; its parameter is \<^verbatim>\<open>container\<close> and nothing
  declares \<^verbatim>\<open>c\<close>, so the body throws and the promise rejects.
\<close>

definition MyContainerManager_handleTerminalState :: "'ns policy" where
  "MyContainerManager_handleTerminalState container = (Inl (ReferenceError ''c is not defined''), [])"

text \<open>
  The \<^verbatim>\<open>for ... of\<close> loop of lines 134-151, with its two arrays and the calls
  made so far. \<open>fleet\<close> gives what \<^verbatim>\<open>c.state()\<close> answers for a stub. A throwing
  \<^verbatim>\<open>getContainerBinding\<close> ends the loop.
\<close>

fun update_loop ::
  "'ns policy \<Rightarrow> (string \<times> 'ns) list \<Rightarrow> ('ns stub \<Rightarrow> ContainerState) \<Rightarrow> ContainerInfo list \<Rightarrow>
   ContainerInfo list \<Rightarrow> ContainerInfo list \<Rightarrow> 'ns rpc list \<Rightarrow>
   error option \<times> ContainerInfo list \<times> ContainerInfo list \<times> 'ns rpc list" where
  "update_loop pol bs fleet [] updated removals sent = (None, updated, removals, sent)"
| "update_loop pol bs fleet (container # rest) updated removals sent =
     (case getContainerBinding bs (bindingName container) (name container) of
        Inl e \<Rightarrow> (Some e, updated, removals, sent)
      | Inr c \<Rightarrow>
          (let st = fleet c in
           if isTerminalState st then
             (case pol c of
                (outcome, calls) \<Rightarrow>
                  (let remove = Promise outcome in
                   if to_boolean remove
                   then update_loop pol bs fleet rest updated (removals @ [container]) (sent @ calls)
                   else update_loop pol bs fleet rest
                          (updated @ [container\<lparr>lastState := st\<rparr>]) removals (sent @ calls)))
           else update_loop pol bs fleet rest
                  (updated @ [container\<lparr>lastState := st\<rparr>]) removals sent))"

text \<open>
  Lines 152-154 are a \<^verbatim>\<open>for ... in\<close> loop: \<^verbatim>\<open>rm\<close> ranges over the array's keys,
  the indices, and \<^verbatim>\<open>rm.name\<close> of such a key is \<^verbatim>\<open>undefined\<close>.
\<close>

definition for_in_keys :: "'a list \<Rightarrow> nat list" where
  "for_in_keys xs = [0..<length xs]"

definition key_name :: "nat \<Rightarrow> prim" where
  "key_name k = PUndefined"

text \<open>
  \<^verbatim>\<open>updateContainerStates()\<close>: the callback given to \<^verbatim>\<open>blockConcurrencyWhile\<close>,
  lines 129-157. The result \<open>Some e\<close> means: the callback threw \<open>e\<close>, on which the
  runtime resets the object; nothing has been written to storage then.
\<close>

definition updateContainerStates ::
  "'ns policy \<Rightarrow> ('ns stub \<Rightarrow> ContainerState) \<Rightarrow> 'ns Manager \<Rightarrow> error option \<times> 'ns Manager" where
  "updateContainerStates pol fleet m =
     (case containers m of
        None \<Rightarrow> (Some (TypeError ''containers is not iterable''), m)
      | Some cs \<Rightarrow>
          (case update_loop pol (bindings m) fleet cs [] [] [] of
             (Some e, updated, removals, sent) \<Rightarrow> (Some e, m\<lparr>outbox := outbox m @ sent\<rparr>)
           | (None, updated, removals, sent) \<Rightarrow>
               (let m1 = m\<lparr>outbox := outbox m @ sent\<rparr>;
                    m2 = fold (\<lambda>rm m'. snd (rmContainer (key_name rm) m')) (for_in_keys removals) m1
                in (None, put_containers updated m2))))"

text \<open>
  \<^verbatim>\<open>setAlarm\<close> of the registry, lines 160-166; the default value is
  \<^verbatim>\<open>Date.now() + 1000\<close>.
\<close>

definition manager_setAlarm :: "nat \<Rightarrow> 'ns Manager \<Rightarrow> 'ns Manager" where
  "manager_setAlarm v m = (case mgr_alarm m of None \<Rightarrow> m\<lparr>mgr_alarm := Some v\<rparr> | Some t \<Rightarrow> m)"

text \<open>
  \<^verbatim>\<open>alarm\<close> of the registry, lines 168-174, called by the runtime when the stored
  alarm is due; while it runs \<^verbatim>\<open>getAlarm()\<close> answers \<^verbatim>\<open>null\<close>, as for the
  supervisor. The pass is the callback of a \<^verbatim>\<open>blockConcurrencyWhile\<close> that line 129
  does not await, so no error of the pass reaches the \<^verbatim>\<open>try\<close>; the reads of
  \<^verbatim>\<open>setAlarm\<close> wait for the exclusive section of the pass. After a pass that
  returns, \<^verbatim>\<open>setAlarm\<close> runs on the state it left. After a pass that throws the
  runtime resets the object while \<^verbatim>\<open>alarm()\<close> is still pending; what becomes of
  the pending \<^verbatim>\<open>setAlarm\<close> is the runtime's matter and no state is given: the
  result is the error.
\<close>

definition manager_alarm ::
  "'ns policy \<Rightarrow> ('ns stub \<Rightarrow> ContainerState) \<Rightarrow> nat \<Rightarrow> 'ns Manager \<Rightarrow> error + 'ns Manager" where
  "manager_alarm pol fleet now m =
     (case updateContainerStates pol fleet (m\<lparr>mgr_alarm := None\<rparr>) of
        (None, m') \<Rightarrow> Inr (manager_setAlarm (now + 1000) m')
      | (Some e, m') \<Rightarrow> Inl e)"

section \<open>Concrete states\<close>

text \<open>
  The scenario of the specification: unit \<^verbatim>\<open>job-a\<close> in pool \<^verbatim>\<open>large\<close>, started
  with \<^verbatim>\<open>{entrypoint: ["/server"]}\<close>; the three pools are those of src/index.ts.
\<close>

definition job_opts :: ContainerStartupOptions where
  "job_opts = \<lparr>env = None, entrypoint = Some [''/server''], enableInternet = None\<rparr>"

definition fresh :: Supervisor where
  "fresh = \<lparr>stored_state = None, stored_alarm = None, monitor = None,
            attached = [], settled = [], monitors_made = 0, launched = []\<rparr>"

definition booting :: Supervisor where
  "booting = \<lparr>stored_state = Some Starting, stored_alarm = None, monitor = Some 0,
              attached = [0], settled = [], monitors_made = 1, launched = [job_opts]\<rparr>"

definition serving :: Supervisor where
  "serving = booting\<lparr>stored_state := Some Running\<rparr>"




definition pools :: "(string \<times> nat) list" where
  "pools = [(''small'', 0), (''medium'', 1), (''large'', 2)]"

definition registry0 :: "nat Manager" where
  "registry0 = \<lparr>bindings = pools, containers = None, mgr_alarm = None, writes = [], outbox = []\<rparr>"

definition job_a :: ContainerInfo where
  "job_a = \<lparr>startupOpts = job_opts, name = ''job-a'', lastState = Starting, bindingName = ''large''\<rparr>"

definition job_b :: ContainerInfo where
  "job_b = \<lparr>startupOpts = job_opts, name = ''job-b'', lastState = Starting, bindingName = ''small''\<rparr>"

definition job_c :: ContainerInfo where
  "job_c = \<lparr>startupOpts = job_opts, name = ''job-c'', lastState = Starting, bindingName = ''huge''\<rparr>"

definition job_d :: ContainerInfo where
  "job_d = \<lparr>startupOpts = job_opts, name = ''job-d'', lastState = Starting, bindingName = []\<rparr>"

definition registry1 :: "nat Manager" where
  "registry1 = registry0\<lparr>containers := Some [job_a]\<rparr>"

definition registry2 :: "nat Manager" where
  "registry2 = registry0\<lparr>containers := Some [job_a, job_a]\<rparr>"

definition registry3 :: "nat Manager" where
  "registry3 = registry0\<lparr>containers := Some [job_a, job_b, job_c, job_d]\<rparr>"

text \<open>A registry with one pool, and a record made with the empty pool name.\<close>

definition registry_one_pool :: "nat Manager" where
  "registry_one_pool = \<lparr>bindings = [(''only'', 7)], containers = Some [job_d], mgr_alarm = None,
                        writes = [], outbox = []\<rparr>"

text \<open>A retirement policy that resolves to \<^verbatim>\<open>false\<close> and calls nothing: keep the record.\<close>

definition keep_policy :: "nat policy" where
  "keep_policy container = (Inr False, [])"

section \<open>The probe cycle\<close>

lemma typeof_misspelt: "typeof (alarm_scope hc) ''maybeHealthcheck'' = ''undefined''"
  by (simp add: typeof_def alarm_scope_def)

text \<open>The test of line 113 is false for every supervisor, so the probe only writes back.\<close>

lemma alarm_cb_writes_back: "alarm_cb h hc st s = setState h st s"
  by (simp add: alarm_cb_def typeof_misspelt)

lemma setState_stored_alarm: "stored_alarm (snd (setState h st s)) = stored_alarm s"
  by (simp add: setState_def Let_def split: option.splits)

lemma setState_default: "setState default_hooks st s = (None, s\<lparr>stored_state := Some st\<rparr>)"
  by (simp add: setState_def default_hooks_def)

lemma alarm_default:
  "alarm default_hooks hc now s = s\<lparr>stored_alarm := Some (now + 500), stored_state := Some (state s)\<rparr>"
  by (simp add: alarm_def stateTx_def alarm_cb_writes_back setState_default setAlarm_def state_def)

lemma alarm_reported_state: "state (alarm default_hooks hc now s) = state s"
  by (simp add: alarm_default) (simp add: state_def)

text \<open>
  Claim C1: on a supervisor with a \<^verbatim>\<open>healthCheck\<close>, a probe cycle follows the transition
  table: \<^verbatim>\<open>"ok"\<close> gives running, \<^verbatim>\<open>"not_listening"\<close> and \<^verbatim>\<open>"no_container_yet"\<close>
  give starting, a response gives unhealthy, anything else leaves the state as it is.
  The code does not do this. Because of the misspelt identifier of line 113 the health
  check is never called, and by \<open>alarm_reported_state\<close> no probe changes the reported
  state: a starting unit whose health check answers \<^verbatim>\<open>"ok"\<close> stays starting.
\<close>

theorem probe_ok_leaves_starting:
  "state (alarm default_hooks (Some (Resolves (Str ''ok''))) 0 booting) = Starting"
  by (simp add: alarm_reported_state) (simp add: state_def booting_def)

text \<open>
  The same after \<^verbatim>\<open>start\<close> on a supervisor with empty storage: the unit is running,
  and a health check that answers with status 503, or \<^verbatim>\<open>"not_listening"\<close>, leaves
  it running.
\<close>

lemma start_on_fresh:
  "start default_hooks False job_opts fresh =
     (None, fresh\<lparr>stored_state := Some Running, monitor := Some 0, attached := [0],
                  monitors_made := 1, launched := [job_opts]\<rparr>)"
  by (simp add: start_def setState_default attach_new_monitor_def container_monitor_def
      handleMonitorPromise_def fresh_def)

lemma probe_after_start_leaves_running:
  "state (alarm default_hooks (Some (Resolves (Resp 503))) 0
            (snd (start default_hooks False job_opts fresh))) = Running"
  "state (alarm default_hooks (Some (Resolves (Str ''not_listening''))) 0
            (snd (start default_hooks False job_opts fresh))) = Running"
  by (simp_all add: alarm_reported_state start_on_fresh) (simp_all add: state_def)

text \<open>
  Claim C9: when the health check itself fails, a starting unit stays starting and any
  other unit becomes failed. The first half holds (\<open>alarm_reported_state\<close>); the second
  does not, for the same misspelt identifier: a running unit whose health check rejects
  stays running.
\<close>

theorem probe_error_leaves_running:
  "state (alarm default_hooks (Some (Rejects (Error ''connection reset''))) 0 serving) = Running"
  by (simp add: alarm_reported_state) (simp add: state_def serving_def booting_def)

section \<open>The completion monitor\<close>



lemma monitor_then_chains_again:
  "state s = Starting \<Longrightarrow> monitor s = Some p \<Longrightarrow>
     monitor_then default_hooks s = (None, s\<lparr>attached := attached s @ [p]\<rparr>)"
  by (simp add: monitor_then_def stateTx_def monitor_resolved_cb_def handleMonitorPromise_def)





section \<open>The value unknown in storage\<close>

lemma setState_stored:
  "stored_state (snd (setState h st s)) = Some Unknown \<Longrightarrow> st = Unknown \<or> stored_state s = Some Unknown"
  by (auto simp add: setState_def Let_def split: option.splits)

lemma setState_stored_const:
  "st \<noteq> Unknown \<Longrightarrow> stored_state (snd (setState h st s)) = Some Unknown \<Longrightarrow> stored_state s = Some Unknown"
  using setState_stored by blast

lemma stored_setAlarm: "stored_state (setAlarm v s) = stored_state s"
  by (simp add: setAlarm_def split: option.splits)

lemma stateTx_stored: "stored_state (snd (stateTx cb s)) = stored_state (snd (cb (state s) s))"
  by (cases "cb (state s) s") (simp add: stateTx_def reset_object_def split: option.splits)

lemma handleMonitorPromise_stored: "stored_state (snd (handleMonitorPromise p s)) = stored_state s"
  by (simp add: handleMonitorPromise_def split: option.splits)

lemma attach_new_monitor_stored: "stored_state (snd (attach_new_monitor s)) = stored_state s"
  by (simp add: attach_new_monitor_def container_monitor_def handleMonitorPromise_stored)

text \<open>A probe cycle stores unknown only by writing back the unknown it read.\<close>

lemma alarm_unknown:
  assumes "stored_state (alarm h hc now s) = Some Unknown"
  shows "state s = Unknown"
proof -
  let ?s0 = "s\<lparr>stored_alarm := None\<rparr>"
  have st: "state ?s0 = state s" by (simp add: state_def)
  obtain e s' where r: "stateTx (alarm_cb h hc) ?s0 = (e, s')"
    by (cases "stateTx (alarm_cb h hc) ?s0")
  from assms r have "stored_state s' = Some Unknown"
    by (cases e) (simp_all add: alarm_def stored_setAlarm)
  with r stateTx_stored[of "alarm_cb h hc" ?s0]
  have "stored_state (snd (setState h (state s) ?s0)) = Some Unknown"
    by (simp add: alarm_cb_writes_back st)
  then have "state s = Unknown \<or> stored_state ?s0 = Some Unknown"
    by (rule setState_stored)
  then show ?thesis by (auto simp: state_def)
qed

lemma monitor_catch_unknown:
  "stored_state (snd (monitor_catch h s)) = Some Unknown \<Longrightarrow> stored_state s = Some Unknown"
  unfolding monitor_catch_def by (rule setState_stored_const) simp_all

lemma monitor_resolved_cb_unknown:
  "stored_state (snd (monitor_resolved_cb h st s)) = Some Unknown \<Longrightarrow> stored_state s = Some Unknown"
  by (auto simp: monitor_resolved_cb_def handleMonitorPromise_stored
      dest: setState_stored_const[rotated] split: if_splits)

lemma monitor_then_unknown:
  "stored_state (snd (monitor_then h s)) = Some Unknown \<Longrightarrow> stored_state s = Some Unknown"
  unfolding monitor_then_def stateTx_stored by (rule monitor_resolved_cb_unknown)

lemma start_unknown:
  assumes "stored_state (snd (start h r opts s)) = Some Unknown"
  shows "stored_state s = Some Unknown"
proof (cases r)
  case True
  with assms show ?thesis
    by (simp add: start_def attach_new_monitor_stored split: if_splits)
next
  case False
  let ?s1 = "s\<lparr>launched := launched s @ [opts]\<rparr>"
  obtain e s2 where r2: "setState h Running ?s1 = (e, s2)"
    by (cases "setState h Running ?s1")
  from assms False r2 have "stored_state s2 = Some Unknown"
    by (cases e) (simp_all add: start_def Let_def attach_new_monitor_stored)
  with r2 setState_stored_const[of Running h ?s1] show ?thesis by simp
qed

text \<open>The operations other than the probe cycle never write unknown.\<close>

lemma step_not_probe_unknown:
  assumes "\<not> is_probe operation" and "stored_state (step h operation s) = Some Unknown"
  shows "stored_state s = Some Unknown"
proof (cases operation)
  case (OpAlarm hc now)
  with assms(1) show ?thesis by (simp add: is_probe_def)
next
  case OpMonitorThen
  with assms(2) show ?thesis using monitor_then_unknown[of h s] by (simp add: step_def)
next
  case OpMonitorRejected
  with assms(2) show ?thesis
    using monitor_catch_unknown[of h s] by (simp add: step_def monitor_rejected_def)
next
  case (OpStart r opts)
  with assms(2) show ?thesis using start_unknown[of h r opts s] by (simp add: step_def)
next
  case OpDestroy
  with assms(2) show ?thesis by (simp add: step_def destroy_def)
qed

text \<open>
  Claim C5, as amended: \<^verbatim>\<open>state()\<close> reports unknown exactly when storage holds no
  state record or holds the value unknown; \<^verbatim>\<open>start\<close>, the handlers of the monitor
  and \<^verbatim>\<open>destroy\<close> never write unknown to storage (it is there after them only if
  it was there before); and the probe cycle of a supervisor without health check leaves
  unknown in storage only if \<^verbatim>\<open>state()\<close> reported unknown before it. The hooks are
  arbitrary. Nothing is said of the probe cycle of a supervisor with a health check.
\<close>

theorem unknown_only_written_back:
  "(state s = Unknown \<longleftrightarrow> stored_state s = None \<or> stored_state s = Some Unknown)
   \<and> (\<not> is_probe operation \<longrightarrow> stored_state (step h operation s) = Some Unknown \<longrightarrow>
        stored_state s = Some Unknown)
   \<and> (stored_state (step h (OpAlarm None now) s) = Some Unknown \<longrightarrow> state s = Unknown)"
proof (intro conjI impI)
  show "state s = Unknown \<longleftrightarrow> stored_state s = None \<or> stored_state s = Some Unknown"
    by (simp add: state_def split: option.splits)
next
  assume "\<not> is_probe operation" and "stored_state (step h operation s) = Some Unknown"
  then show "stored_state s = Some Unknown" by (rule step_not_probe_unknown)
next
  assume "stored_state (step h (OpAlarm None now) s) = Some Unknown"
  then show "state s = Unknown" using alarm_unknown[of h None now s] by (simp add: step_def)
qed

text \<open>
  The amended claim at the first probe cycle of a supervisor with empty storage, and at
  a run of the monitor's handler after it.
\<close>

theorem unknown_only_written_back_witness:
  "stored_state (step default_hooks (OpAlarm None 0) fresh) = Some Unknown
   \<and> state fresh = Unknown
   \<and> \<not> is_probe OpMonitorThen
   \<and> stored_state (step default_hooks OpMonitorThen (alarm default_hooks None 0 fresh)) = Some Unknown
   \<and> stored_state (alarm default_hooks None 0 fresh) = Some Unknown"
  using unknown_only_written_back[where s = fresh and h = default_hooks and now = 0
      and operation = OpMonitorThen]
    unknown_only_written_back[where s = "alarm default_hooks None 0 fresh" and h = default_hooks
      and operation = OpMonitorThen]
  by (simp add: step_def alarm_default is_probe_def monitor_then_def stateTx_def
      monitor_resolved_cb_def)
     (simp add: state_def fresh_def)

text \<open>
  Claim C5 as stated (no operation writes unknown to storage; \<^verbatim>\<open>state()\<close> reports
  unknown exactly when storage holds no record) fails: on empty storage a probe cycle
  without health check writes back the unknown it read (line 152), and afterwards
  \<^verbatim>\<open>state()\<close> reports unknown although storage holds a record.
\<close>

theorem probe_persists_unknown:
  "stored_state fresh = None
   \<and> stored_state (alarm default_hooks None 0 fresh) = Some Unknown
   \<and> state (alarm default_hooks None 0 fresh) = Unknown"
  by (simp add: alarm_default) (simp add: state_def fresh_def)

section \<open>The registry\<close>

lemma array_includes_never: "array_includes cs p = False"
  by (induction cs) (simp_all add: array_includes_def strict_equals_def)

lemma rmContainer_noop: "rmContainer p m = (False, m)"
  by (simp add: rmContainer_def strict_equals_def Let_def split: option.splits)

lemma addContainer_appends:
  "addContainer nm opts bn m =
     put_containers
       (listContainers m @ [\<lparr>startupOpts = opts, name = nm, lastState = Starting, bindingName = bn\<rparr>]) m"
  by (simp add: addContainer_def array_includes_never listContainers_def)

lemma fold_rmContainer: "fold (\<lambda>rm m'. snd (rmContainer (key_name rm) m')) ks m = m"
  by (induction ks) (simp_all add: rmContainer_noop)

lemma getContainerBinding_pools:
  "getContainerBinding pools ''small'' nm = Inr (0, nm)"
  "getContainerBinding pools ''medium'' nm = Inr (1, nm)"
  "getContainerBinding pools ''large'' nm = Inr (2, nm)"
  by (simp_all add: getContainerBinding_def getBinding_def get_property_def pools_def)

text \<open>
  Claim C3: a second \<^verbatim>\<open>newContainer\<close> with the same name leaves exactly one record
  for that name. The code adds a second one: line 93 asks whether the array of records
  includes the name, a string, which no record is (\<open>array_includes_never\<close>).
\<close>

theorem newContainer_twice_two_records:
  "map name (listContainers (snd (newContainer job_opts ''job-a'' ''large''
      (snd (newContainer job_opts ''job-a'' ''large'' registry0))))) = [''job-a'', ''job-a'']"
  by (simp add: newContainer_def addContainer_appends put_containers_def listContainers_def
      registry0_def getContainerBinding_pools)

text \<open>
  Claim C7: \<^verbatim>\<open>rmContainer(name)\<close> removes exactly the records with that name,
  persists only if something was removed, and returns whether it removed. The code
  removes nothing: line 111 keeps every record \<^verbatim>\<open>d\<close> with \<^verbatim>\<open>d !== name\<close>, an
  object against a string, so it returns \<^verbatim>\<open>false\<close> and leaves storage as it is,
  for every argument (\<open>rmContainer_noop\<close>).
\<close>

theorem rmContainer_keeps_record:
  "rmContainer (PString ''job-a'') registry1 = (False, registry1)
   \<and> map name (listContainers registry1) = [''job-a'']"
  by (simp add: rmContainer_noop) (simp add: listContainers_def registry1_def job_a_def)

subsection \<open>Reconciliation\<close>

text \<open>
  The loop splits the directory by the fetched state alone. \<open>stub\<close> names the supervisor
  each record resolves to.
\<close>

lemma update_loop_partition:
  assumes "\<And>c. c \<in> set cs \<Longrightarrow> getContainerBinding bs (bindingName c) (name c) = Inr (stub c)"
  shows "update_loop pol bs fleet cs u r sent =
    (None,
     u @ map (\<lambda>c. c\<lparr>lastState := fleet (stub c)\<rparr>)
           (filter (\<lambda>c. \<not> isTerminalState (fleet (stub c))) cs),
     r @ filter (\<lambda>c. isTerminalState (fleet (stub c))) cs,
     sent @ concat (map (\<lambda>c. snd (pol (stub c))) (filter (\<lambda>c. isTerminalState (fleet (stub c))) cs)))"
  using assms
proof (induction cs arbitrary: u r sent)
  case Nil
  show ?case by simp
next
  case (Cons c cs)
  have c: "getContainerBinding bs (bindingName c) (name c) = Inr (stub c)"
    by (rule Cons.prems) simp
  have rest: "\<And>d. d \<in> set cs \<Longrightarrow> getContainerBinding bs (bindingName d) (name d) = Inr (stub d)"
    by (rule Cons.prems) simp
  show ?case
  proof (cases "isTerminalState (fleet (stub c))")
    case True
    obtain outcome calls where p: "pol (stub c) = (outcome, calls)"
      by (cases "pol (stub c)")
    from True c p show ?thesis
      by (simp add: to_boolean_def Cons.IH[OF rest])
  next
    case False
    with c show ?thesis by (simp add: Cons.IH[OF rest])
  qed
qed

text \<open>
  A pass whose records all resolve: the records in a terminal state are dropped whatever
  the policy resolves to, the others are kept with the fetched state, and the directory
  is written once.
\<close>

lemma updateContainerStates_effect:
  assumes "containers m = Some cs"
    and "\<And>c. c \<in> set cs \<Longrightarrow> getContainerBinding (bindings m) (bindingName c) (name c) = Inr (stub c)"
  shows "updateContainerStates pol fleet m =
    (None, put_containers
       (map (\<lambda>c. c\<lparr>lastState := fleet (stub c)\<rparr>)
          (filter (\<lambda>c. \<not> isTerminalState (fleet (stub c))) cs))
       (m\<lparr>outbox := outbox m @
            concat (map (\<lambda>c. snd (pol (stub c))) (filter (\<lambda>c. isTerminalState (fleet (stub c))) cs))\<rparr>))"
  using assms(1) update_loop_partition[of cs "bindings m" stub pol fleet "[]" "[]" "[]", OF assms(2)]
  by (simp add: updateContainerStates_def fold_rmContainer)

text \<open>
  Claim C2: a pass removes a record if and only if the supervisor's state is terminal and
  the retirement policy returns "remove"; kept records get the fetched state; the pass
  commits one replace of the directory. The code removes the record of a stopped unit
  although the policy resolves to \<^verbatim>\<open>false\<close>: line 143 does not await the policy, so
  line 144 tests a promise. The rest holds (\<open>updateContainerStates_effect\<close>).
\<close>

theorem reconcile_removes_despite_policy:
  "updateContainerStates keep_policy (\<lambda>c. Stopped) registry1
     = (None, registry1\<lparr>containers := Some [], writes := [[]]\<rparr>)"
  by (simp add: updateContainerStates_def registry1_def registry0_def job_a_def
      getContainerBinding_pools isTerminalState_def to_boolean_def fold_rmContainer
      put_containers_def keep_policy_def)

text \<open>
  The same pass under the two policies of the repository: the default one has the unit
  destroyed, the override of \<^verbatim>\<open>MyContainerManager\<close> rejects before it calls
  anything; both lose the record.
\<close>

lemma reconcile_default_policy:
  "updateContainerStates handleTerminalState (\<lambda>c. Stopped) registry1
     = (None, registry1\<lparr>containers := Some [], writes := [[]], outbox := [RpcDestroy (2, ''job-a'')]\<rparr>)"
  by (simp add: updateContainerStates_def registry1_def registry0_def job_a_def
      getContainerBinding_pools isTerminalState_def to_boolean_def fold_rmContainer
      put_containers_def handleTerminalState_def)

lemma reconcile_MyContainerManager_policy:
  "updateContainerStates MyContainerManager_handleTerminalState (\<lambda>c. Stopped) registry1
     = (None, registry1\<lparr>containers := Some [], writes := [[]]\<rparr>)"
  by (simp add: updateContainerStates_def registry1_def registry0_def job_a_def
      getContainerBinding_pools isTerminalState_def to_boolean_def fold_rmContainer
      put_containers_def MyContainerManager_handleTerminalState_def)

subsection \<open>Pools\<close>

text \<open>
  What \<^verbatim>\<open>getBinding\<close> does on a name that \<^verbatim>\<open>Object.prototype\<close> does not define:
  the one pool for the empty name, the ambiguity error with several pools, the pool
  configured under a non-empty name, and otherwise the error of line 41.
\<close>

lemma getBinding_cases:
  "(length bs = 1 \<longrightarrow> getBinding bs [] = Inr (Pool (snd (hd bs))))
   \<and> (1 < length bs \<longrightarrow>
        getBinding bs [] = Inl (Error ''Multiple container bindings present: you must specify a name.''))
   \<and> (nm \<noteq> [] \<longrightarrow> map_of bs nm = Some b \<longrightarrow> getBinding bs nm = Inr (Pool b))
   \<and> (nm \<noteq> [] \<longrightarrow> nm \<notin> fst ` set bs \<longrightarrow> nm \<notin> set object_prototype_names \<longrightarrow>
        getBinding bs nm =
          Inl (Error (''No container binding found for name: '' @ [CHR 0x27] @ nm @ [CHR 0x27])))"
  by (auto simp: getBinding_def get_property_def map_of_eq_None_iff[symmetric] split: list.splits)

lemma getBinding_pools:
  "getBinding pools [] = Inl (Error ''Multiple container bindings present: you must specify a name.'')"
  "getBinding pools ''large'' = Inr (Pool 2)"
  "getBinding pools ''huge''
     = Inl (Error (''No container binding found for name: '' @ [CHR 0x27] @ ''huge'' @ [CHR 0x27]))"
  by (simp_all add: getBinding_def get_property_def pools_def object_prototype_names_def)

text \<open>
  Claim C8: \<^verbatim>\<open>getBinding\<close> with an empty name returns the single configured pool
  or fails with the ambiguity error; with a non-empty name it returns the pool of that
  name, or fails with the "no such pool" error when the name is not configured. The
  first half holds, and so does the second for most names (\<open>getBinding_cases\<close>). But
  \<^verbatim>\<open>"constructor"\<close> is not configured among the three pools, and line 39 reads it
  from the prototype of the binding map: the test of line 40 passes, no error is thrown
  and a value that is no pool is returned; the failure comes one call later, as a
  \<^verbatim>\<open>TypeError\<close> of line 52.
\<close>

theorem getBinding_inherited_name:
  "map_of pools ''constructor'' = None
   \<and> getBinding pools ''constructor'' = Inr (Inherited ''constructor'')
   \<and> getContainerBinding pools ''constructor'' ''job-a''
       = Inl (TypeError ''binding.idFromName is not a function'')"
  by (simp add: getContainerBinding_def getBinding_def get_property_def pools_def
      object_prototype_names_def)

subsection \<open>Requests\<close>

text \<open>A record that \<^verbatim>\<open>newContainer\<close> has added names a pool that resolves.\<close>

lemma newContainer_resolves:
  "newContainer opts nm bn m = (None, m') \<Longrightarrow> \<exists>pool. getContainerBinding (bindings m) bn nm = Inr (pool, nm)"
  by (auto simp: newContainer_def getContainerBinding_def split: sum.splits binding.splits)

text \<open>
  Claim C6: \<^verbatim>\<open>requestContainer\<close> is rejected when the directory holds no record or
  more than one for the name. With exactly one record it resolves the pool of that
  record, the namespace configured under the record's pool name, or the only namespace
  when that name is empty, and forwards the request to the supervisor of that namespace
  and name. It is rejected as well when the pool of the one record does not resolve.
\<close>

theorem requestContainer_by_count:
  "(length (filter (\<lambda>c. name c = nm) (listContainers m)) \<noteq> 1 \<longrightarrow> isl (requestContainer nm request m))
   \<and> (containers m = Some cs \<longrightarrow> filter (\<lambda>c. name c = nm) cs = [r] \<longrightarrow> bindingName r \<noteq> [] \<longrightarrow>
        map_of (bindings m) (bindingName r) = Some pool \<longrightarrow>
        requestContainer nm request m = Inr (RpcFetch (pool, nm) request))
   \<and> (containers m = Some cs \<longrightarrow> filter (\<lambda>c. name c = nm) cs = [r] \<longrightarrow> bindingName r = [] \<longrightarrow>
        bindings m = [(k, pool)] \<longrightarrow>
        requestContainer nm request m = Inr (RpcFetch (pool, nm) request))
   \<and> (containers m = Some cs \<longrightarrow> filter (\<lambda>c. name c = nm) cs = [r] \<longrightarrow> bindingName r \<noteq> [] \<longrightarrow>
        map_of (bindings m) (bindingName r) = None \<longrightarrow>
        isl (requestContainer nm request m))
   \<and> (containers m = Some cs \<longrightarrow> filter (\<lambda>c. name c = nm) cs = [r] \<longrightarrow> bindingName r = [] \<longrightarrow>
        length (bindings m) \<noteq> 1 \<longrightarrow>
        isl (requestContainer nm request m))"
proof (intro conjI impI)
  assume "length (filter (\<lambda>c. name c = nm) (listContainers m)) \<noteq> 1"
  then show "isl (requestContainer nm request m)"
    by (auto simp: requestContainer_def listContainers_def Let_def split: option.splits)
next
  assume "containers m = Some cs" "filter (\<lambda>c. name c = nm) cs = [r]" "bindingName r \<noteq> []"
    "map_of (bindings m) (bindingName r) = Some pool"
  then show "requestContainer nm request m = Inr (RpcFetch (pool, nm) request)"
    by (simp add: requestContainer_def getContainerBinding_def getBinding_def get_property_def)
next
  assume "containers m = Some cs" "filter (\<lambda>c. name c = nm) cs = [r]" "bindingName r = []"
    "bindings m = [(k, pool)]"
  then show "requestContainer nm request m = Inr (RpcFetch (pool, nm) request)"
    by (simp add: requestContainer_def getContainerBinding_def getBinding_def)
next
  assume "containers m = Some cs" "filter (\<lambda>c. name c = nm) cs = [r]" "bindingName r \<noteq> []"
    "map_of (bindings m) (bindingName r) = None"
  then show "isl (requestContainer nm request m)"
    by (simp add: requestContainer_def getContainerBinding_def getBinding_def get_property_def)
next
  assume "containers m = Some cs" "filter (\<lambda>c. name c = nm) cs = [r]" "bindingName r = []"
    "length (bindings m) \<noteq> 1"
  then show "isl (requestContainer nm request m)"
    by (auto simp: requestContainer_def getContainerBinding_def getBinding_def split: list.splits)
qed

text \<open>
  Claim C6 on directories with no and with two records for \<^verbatim>\<open>job-a\<close>, and on one
  with a record in pool \<^verbatim>\<open>large\<close>, one in pool \<^verbatim>\<open>small\<close>, one in a pool that is
  not configured and one made with the empty pool name, under three pools and under one.
\<close>

theorem requestContainer_by_count_witness:
  "isl (requestContainer ''job-a'' ''https://worker/container/job-a'' registry0)
   \<and> isl (requestContainer ''job-a'' ''https://worker/container/job-a'' registry2)
   \<and> requestContainer ''job-a'' ''https://worker/container/job-a'' registry3
       = Inr (RpcFetch (2, ''job-a'') ''https://worker/container/job-a'')
   \<and> requestContainer ''job-b'' ''https://worker/container/job-b'' registry3
       = Inr (RpcFetch (0, ''job-b'') ''https://worker/container/job-b'')
   \<and> isl (requestContainer ''job-c'' ''https://worker/container/job-c'' registry3)
   \<and> isl (requestContainer ''job-d'' ''https://worker/container/job-d'' registry3)
   \<and> requestContainer ''job-d'' ''https://worker/container/job-d'' registry_one_pool
       = Inr (RpcFetch (7, ''job-d'') ''https://worker/container/job-d'')"
  using requestContainer_by_count[where m = registry0 and nm = "''job-a''"
      and request = "''https://worker/container/job-a''"]
    requestContainer_by_count[where m = registry2 and nm = "''job-a''"
      and request = "''https://worker/container/job-a''"]
    requestContainer_by_count[where m = registry3 and nm = "''job-a''"
      and cs = "[job_a, job_b, job_c, job_d]" and r = job_a and pool = 2
      and request = "''https://worker/container/job-a''"]
    requestContainer_by_count[where m = registry3 and nm = "''job-b''"
      and cs = "[job_a, job_b, job_c, job_d]" and r = job_b and pool = 0
      and request = "''https://worker/container/job-b''"]
    requestContainer_by_count[where m = registry3 and nm = "''job-c''"
      and cs = "[job_a, job_b, job_c, job_d]" and r = job_c
      and request = "''https://worker/container/job-c''"]
    requestContainer_by_count[where m = registry3 and nm = "''job-d''"
      and cs = "[job_a, job_b, job_c, job_d]" and r = job_d
      and request = "''https://worker/container/job-d''"]
    requestContainer_by_count[where m = registry_one_pool and nm = "''job-d''"
      and cs = "[job_d]" and r = job_d and k = "''only''" and pool = 7
      and request = "''https://worker/container/job-d''"]
  by (simp add: listContainers_def registry0_def registry2_def registry3_def registry_one_pool_def
      job_a_def job_b_def job_c_def job_d_def pools_def)

section \<open>Wake-ups\<close>

text \<open>Arming is idempotent: a pending wake-up is kept.\<close>

lemma setAlarm_idempotent:
  "setAlarm v (setAlarm v' s) = setAlarm v' s"
  "manager_setAlarm v (manager_setAlarm v' m) = manager_setAlarm v' m"
  by (simp_all add: setAlarm_def manager_setAlarm_def split: option.splits)

text \<open>A handler whose body returns leaves a wake-up pending.\<close>

lemma alarm_armed_when_body_returns:
  assumes "fst (stateTx (alarm_cb h hc) (s\<lparr>stored_alarm := None\<rparr>)) = None"
  shows "stored_alarm (alarm h hc now s) = Some (now + 500)"
proof -
  let ?s0 = "s\<lparr>stored_alarm := None\<rparr>"
  obtain e s' where r: "setState h (state ?s0) ?s0 = (e, s')"
    by (cases "setState h (state ?s0) ?s0")
  with assms have e: "e = None"
    by (cases e) (simp_all add: stateTx_def alarm_cb_writes_back)
  from r setState_stored_alarm[of h "state ?s0" ?s0] have "stored_alarm s' = None" by simp
  with r e show ?thesis
    by (simp add: alarm_def stateTx_def alarm_cb_writes_back setAlarm_def)
qed

lemma alarm_armed_default_hooks: "stored_alarm (alarm default_hooks hc now s) = Some (now + 500)"
  by (simp add: alarm_default)

lemma updateContainerStates_mgr_alarm:
  "mgr_alarm (snd (updateContainerStates pol fleet m)) = mgr_alarm m"
  by (simp add: updateContainerStates_def fold_rmContainer put_containers_def
      split: option.splits prod.splits)

lemma manager_alarm_armed_when_pass_returns:
  assumes "updateContainerStates pol fleet (m\<lparr>mgr_alarm := None\<rparr>) = (None, m')"
  shows "manager_alarm pol fleet now m = Inr (m'\<lparr>mgr_alarm := Some (now + 1000)\<rparr>)"
proof -
  from assms updateContainerStates_mgr_alarm[of pol fleet "m\<lparr>mgr_alarm := None\<rparr>"]
  have "mgr_alarm m' = None" by simp
  with assms show ?thesis by (simp add: manager_alarm_def manager_setAlarm_def)
qed

text \<open>
  The pass of a registry with nothing in storage throws at line 134; this is the first
  wake-up of a registry, which its constructor arms.
\<close>

lemma manager_alarm_pass_throws:
  "manager_alarm handleTerminalState (\<lambda>c. Running) 40 registry0
     = Inl (TypeError ''containers is not iterable'')"
  by (simp add: manager_alarm_def updateContainerStates_def registry0_def)



end
